theory Spec2Isabelle
  imports Complex_Main
begin

section \<open>Values of the program\<close>

text \<open>
  A JavaScript number is modelled as a rational (exact arithmetic; NaN, the infinities
  and rounding of doubles are outside the model).  A JavaScript string is modelled by the
  bytes of its UTF-8 encoding, as a \<open>string\<close>; a string with a lone surrogate has no
  such encoding and is outside the model.
\<close>

type_synonym number = rat

text \<open>\<open>SourceObject\<close> of the type declarations; only the fields the component reads.\<close>

record SourceObject =
  uri :: string
  height :: "number option"
  width :: "number option"

text \<open>
  \<open>Source = number | string | SourceObject | Array<SourceObject>\<close>; the props
  \<open>source\<close> and \<open>defaultSource\<close> are optional, so \<open>undefined\<close> is a value too, and
  the code tests for \<open>null\<close>.
\<close>

datatype Source =
    SrcUndefined
  | SrcNull
  | SrcNumber number
  | SrcString string
  | SrcObject SourceObject
  | SrcArray "SourceObject list"

text \<open>The manifest that \<open>getAssetByID\<close> returns (the fields the component reads).\<close>

record Asset =
  httpServerLocation :: string
  name :: string
  type :: string
  scales :: "number list"
  assetHeight :: number
  assetWidth :: number

text \<open>What a \<open>throw\<close> of the program carries.\<close>

datatype error =
    Error string
  | TypeError

text \<open>
  The collaborators of the component that are not part of it: the asset registry, the
  cache probe of the image loader, the device pixel ratio of the window, and the
  conversion of a number to a string where the number is not a small integer.
\<close>

record env =
  getAssetByID :: "number \<Rightarrow> Asset option"
  devicePixelRatio :: number
  ImageLoader_has :: "string \<Rightarrow> bool"
  formatNumber :: "number \<Rightarrow> string"

section \<open>Built-ins of the language\<close>

text \<open>Decimal digits of a natural number, most significant first.\<close>

fun digitsOf :: "nat \<Rightarrow> string" where
  "digitsOf n =
     (if n < 10 then [char_of (48 + n)]
      else digitsOf (n div 10) @ [char_of (48 + n mod 10)])"

declare digitsOf.simps [simp del]

text \<open>
  \<open>String(n)\<close> in a template literal: an integer below \<open>10^21\<close> in absolute value prints
  as its decimal digits; for every other number the shortest round-trip form of the
  double is taken from the environment.
\<close>

definition numberToString :: "env \<Rightarrow> number \<Rightarrow> string" where
  "numberToString E r =
     (if r = of_int \<lfloor>r\<rfloor> \<and> \<bar>r\<bar> < 10 ^ 21
      then (if r < 0 then ''-'' else []) @ digitsOf (nat \<bar>\<lfloor>r\<rfloor>\<bar>)
      else formatNumber E r)"

text \<open>
  \<open>encodeURIComponent\<close>: the unreserved characters stay, every other byte of the UTF-8
  encoding becomes \<open>%XX\<close> with upper-case hexadecimal digits.
\<close>

definition uriUnreserved :: "char \<Rightarrow> bool" where
  "uriUnreserved c \<longleftrightarrow>
     c \<in> set (''ABCDEFGHIJKLMNOPQRSTUVWXYZabcdefghijklmnopqrstuvwxyz0123456789-_.!~*()''
              @ [CHR 0x27])"

definition hexDigit :: "nat \<Rightarrow> char" where
  "hexDigit n = ''0123456789ABCDEF'' ! (n mod 16)"

definition encodeByte :: "char \<Rightarrow> string" where
  "encodeByte c =
     (if uriUnreserved c then [c]
      else [CHR ''%'', hexDigit (of_char c div 16), hexDigit (of_char c mod 16)])"

definition encodeURIComponent :: "string \<Rightarrow> string" where
  "encodeURIComponent s = concat (map encodeByte s)"

text \<open>
  \<open>decodeURIComponent\<close>, the inverse: \<open>%XX\<close> becomes the byte, and a \<open>%\<close> that two
  hexadecimal digits do not follow is a \<open>URIError\<close> (\<open>None\<close>).  The program does not
  call it; it is what reads the escaped payload back.
\<close>

definition hexValue :: "char \<Rightarrow> nat option" where
  "hexValue c =
     (let n = (of_char c :: nat) in
      if 48 \<le> n \<and> n \<le> 57 then Some (n - 48)
      else if 65 \<le> n \<and> n \<le> 70 then Some (n - 55)
      else if 97 \<le> n \<and> n \<le> 102 then Some (n - 87)
      else None)"

fun decodeURIComponent :: "string \<Rightarrow> string option" where
  "decodeURIComponent [] = Some []"
| "decodeURIComponent (c # cs) =
     (if c = CHR ''%'' then
        (case cs of
           a # b # rest \<Rightarrow>
             (case (hexValue a, hexValue b) of
                (Some x, Some y) \<Rightarrow>
                  map_option ((#) (char_of (16 * x + y))) (decodeURIComponent rest)
              | _ \<Rightarrow> None)
         | _ \<Rightarrow> None)
      else map_option ((#) c) (decodeURIComponent cs))"

section \<open>The source resolver\<close>

text \<open>
  \<open>svgDataUriPattern = /^(data:image\/svg\+xml;utf8,)(.*)/\<close>.  The pattern has no
  flags, so \<open>.\<close> stops at the first line terminator: LF, CR, U+2028 or U+2029 (the
  last two are the bytes E2 80 A8 and E2 80 A9).
\<close>

definition svgPrefix :: string where
  "svgPrefix = ''data:image/svg+xml;utf8,''"

fun dotStar :: "string \<Rightarrow> string" where
  "dotStar [] = []"
| "dotStar (c # cs) =
     (if c = CHR 0x0A \<or> c = CHR 0x0D then []
      else if c = CHR 0xE2 \<and> (take 2 cs = [CHR 0x80, CHR 0xA8] \<or> take 2 cs = [CHR 0x80, CHR 0xA9])
      then []
      else c # dotStar cs)"

text \<open>\<open>uri.match(svgDataUriPattern)\<close>: the two groups, or \<open>None\<close> for \<open>null\<close>.\<close>

definition matchSvgDataUri :: "string \<Rightarrow> (string \<times> string) option" where
  "matchSvgDataUri u =
     (if take (length svgPrefix) u = svgPrefix
      then Some (svgPrefix, dotStar (drop (length svgPrefix) u))
      else None)"

text \<open>The end of \<open>resolveAssetUri\<close>: the escaping of an inline SVG (\<open>None\<close> is \<open>null\<close>).\<close>

definition escapeSvgDataUri :: "string option \<Rightarrow> string option" where
  "escapeSvgDataUri u =
     (case u of
        None \<Rightarrow> None
      | Some s \<Rightarrow>
          if s \<noteq> [] then
            (case matchSvgDataUri s of
               Some (prefix, svg) \<Rightarrow> Some (prefix @ encodeURIComponent svg)
             | None \<Rightarrow> Some s)
          else Some s)"

text \<open>\<open>asset.scales.reduce(f)\<close> with no initial value, on a non-empty array.\<close>

definition closerScale :: "number \<Rightarrow> number \<Rightarrow> number \<Rightarrow> number" where
  "closerScale preferredScale prev cur =
     (if \<bar>cur - preferredScale\<bar> < \<bar>prev - preferredScale\<bar> then cur else prev)"

text \<open>
  The choice of the scale: \<open>let [scale] = asset.scales\<close> gives \<open>undefined\<close> (\<open>None\<close>) on
  an empty array; with more than one scale the closest to \<open>window.devicePixelRatio || 1\<close>
  is taken.
\<close>

definition selectScale :: "env \<Rightarrow> number list \<Rightarrow> number option" where
  "selectScale E ss =
     (case ss of
        [] \<Rightarrow> None
      | s # rest \<Rightarrow>
          if length ss > 1 then
            (let preferredScale = (if devicePixelRatio E \<noteq> 0 then devicePixelRatio E else 1)
             in Some (foldl (closerScale preferredScale) s rest))
          else Some s)"

definition scaleSuffix :: "env \<Rightarrow> number option \<Rightarrow> string" where
  "scaleSuffix E scale =
     (case scale of
        None \<Rightarrow> ''@undefinedx''
      | Some s \<Rightarrow> if s \<noteq> 1 then ''@'' @ numberToString E s @ ''x'' else [])"

definition resolveAssetUri :: "env \<Rightarrow> Source \<Rightarrow> error + string option" where
  \<open>resolveAssetUri E source =
     (case source of
        SrcString s \<Rightarrow> Inr (escapeSvgDataUri (Some s))
      | SrcNumber n \<Rightarrow>
          (case getAssetByID E n of
             None \<Rightarrow>
               Inl (Error (''Image: asset with ID "'' @ numberToString E n
                  @ ''" could not be found. Please check the image source or packager.''))
           | Some asset \<Rightarrow>
               Inr (escapeSvgDataUri (Some
                 (httpServerLocation asset @ ''/'' @ name asset
                    @ scaleSuffix E (selectScale E (scales asset)) @ ''.'' @ type asset))))
      | SrcArray xs \<Rightarrow>
          (case xs of
             [] \<Rightarrow> Inl TypeError
           | x # _ \<Rightarrow> Inr (escapeSvgDataUri (Some (uri x))))
      | SrcObject x \<Rightarrow> Inr (escapeSvgDataUri (Some (uri x)))
      | SrcUndefined \<Rightarrow> Inr (escapeSvgDataUri None)
      | SrcNull \<Rightarrow> Inr (escapeSvgDataUri None))\<close>

text \<open>The result of \<open>resolveAssetDimensions\<close>; \<open>None\<close> for a field is \<open>undefined\<close>.\<close>

record Dimensions =
  height :: "number option"
  width :: "number option"

definition resolveAssetDimensions :: "env \<Rightarrow> Source \<Rightarrow> error + Dimensions option" where
  "resolveAssetDimensions E source =
     (case source of
        SrcNumber n \<Rightarrow>
          (case getAssetByID E n of
             None \<Rightarrow> Inl TypeError
           | Some asset \<Rightarrow>
               Inr (Some \<lparr>height = Some (assetHeight asset), width = Some (assetWidth asset)\<rparr>))
      | SrcObject x \<Rightarrow>
          Inr (Some \<lparr>height = SourceObject.height x, width = SourceObject.width x\<rparr>)
      | _ \<Rightarrow> Inr None)"

section \<open>The presentation\<close>

datatype LoadState = ERRORED | LOADED | LOADING | IDLE

datatype ResizeMode = center | contain | cover | none | repeat | stretch

text \<open>
  \<open>state === LOADED || (state === LOADING && defaultSource === null)\<close>: the strict
  comparison holds for \<open>null\<close> only, not for \<open>undefined\<close>.
\<close>

definition shouldDisplaySource :: "LoadState \<Rightarrow> Source \<Rightarrow> bool" where
  "shouldDisplaySource state defaultSource \<longleftrightarrow>
     state = LOADED \<or> (state = LOADING \<and> defaultSource = SrcNull)"


record Layout =
  height :: number
  width :: number


section \<open>The component and its load effect\<close>

text \<open>
  A callback prop is modelled by the identity of the function passed (\<open>None\<close>: the prop
  is absent); a request handle and the event of the loader are opaque values.
\<close>

type_synonym callback = nat
type_synonym handle = nat
type_synonym event = nat

record ImageProps =
  source :: Source
  defaultSource :: Source
  onError :: "callback option"
  onLoad :: "callback option"
  onLoadEnd :: "callback option"
  onLoadStart :: "callback option"

text \<open>What the component calls: the callbacks of its props and the image loader.\<close>

datatype call =
    CallOnLoadStart callback
  | CallOnLoad callback event
  | CallOnLoadEnd callback event
  | CallOnError callback string
  | CallLoaderLoad string handle
  | CallLoaderAbort handle

text \<open>
  The dependencies of the load effect that can change:
  \<open>[uri, requestRef, updateState, onError, onLoad, onLoadEnd, onLoadStart]\<close>.
\<close>

record Deps =
  depUri :: "string option"
  depOnError :: "callback option"
  depOnLoad :: "callback option"
  depOnLoadEnd :: "callback option"
  depOnLoadStart :: "callback option"

text \<open>
  One mounted component: its load state, \<open>requestRef.current\<close>, the dependencies of the
  last run of the load effect, the callbacks given to \<open>ImageLoader.load\<close> (under the
  handle it returned, with the URI they close over), and the log of the calls made so
  far, oldest first.
\<close>

record Instance =
  state :: LoadState
  requestRef :: "handle option"
  deps :: Deps
  issued :: "(handle \<times> string \<times> Deps) list"
  calls :: "call list"

definition abortPendingRequest :: "Instance \<Rightarrow> Instance" where
  "abortPendingRequest inst =
     (case requestRef inst of
        None \<Rightarrow> inst
      | Some h \<Rightarrow> inst\<lparr>requestRef := None, calls := calls inst @ [CallLoaderAbort h]\<rparr>)"

definition notify :: "callback option \<Rightarrow> (callback \<Rightarrow> call) \<Rightarrow> call list" where
  "notify cb f = (case cb of None \<Rightarrow> [] | Some k \<Rightarrow> [f k])"

text \<open>The two callbacks the effect hands to \<open>ImageLoader.load\<close>.\<close>

definition loadCallback :: "Deps \<Rightarrow> event \<Rightarrow> Instance \<Rightarrow> Instance" where
  "loadCallback d e inst =
     inst\<lparr>state := LOADED,
          calls := calls inst @ notify (depOnLoad d) (\<lambda>k. CallOnLoad k e)
                     @ notify (depOnLoadEnd d) (\<lambda>k. CallOnLoadEnd k e)\<rparr>"

definition errorCallback :: "string \<Rightarrow> Deps \<Rightarrow> event \<Rightarrow> Instance \<Rightarrow> Instance" where
  "errorCallback u d e inst =
     inst\<lparr>state := ERRORED,
          calls := calls inst
                     @ notify (depOnError d)
                         (\<lambda>k. CallOnError k (''Failed to load resource '' @ u @ '' (404)''))
                     @ notify (depOnLoadEnd d) (\<lambda>k. CallOnLoadEnd k e)\<rparr>"

text \<open>
  The body of the load effect; \<open>h\<close> is the handle \<open>ImageLoader.load\<close> returns if it is
  called.
\<close>

definition loadEffect :: "Deps \<Rightarrow> handle \<Rightarrow> Instance \<Rightarrow> Instance" where
  "loadEffect d h inst =
     (let inst1 = abortPendingRequest inst in
      case depUri d of
        None \<Rightarrow> inst1
      | Some u \<Rightarrow>
          inst1\<lparr>state := LOADING,
                requestRef := Some h,
                issued := (h, u, d) # issued inst1,
                calls := calls inst1 @ notify (depOnLoadStart d) CallOnLoadStart
                           @ [CallLoaderLoad u h]\<rparr>)"

text \<open>The initializer of \<open>useState\<close>.\<close>

definition initialState :: "env \<Rightarrow> ImageProps \<Rightarrow> error + LoadState" where
  "initialState E props =
     (case resolveAssetUri E (source props) of
        Inl err \<Rightarrow> Inl err
      | Inr None \<Rightarrow> Inr IDLE
      | Inr (Some u) \<Rightarrow> Inr (if ImageLoader_has E u then LOADED else IDLE))"

text \<open>
  What one run of the component function resolves, in the order of the code: the URI and
  the dimensions of the selected source, then the URI of \<open>source\<close>.
\<close>

record Rendered =
  displayImageUri :: "string option"
  imageSizeStyle :: "Dimensions option"
  renderedUri :: "string option"

definition renderBody :: "env \<Rightarrow> ImageProps \<Rightarrow> LoadState \<Rightarrow> error + Rendered" where
  "renderBody E props st =
     (let selectedSource =
            (if shouldDisplaySource st (defaultSource props) then source props
             else defaultSource props)
      in case resolveAssetUri E selectedSource of
           Inl err \<Rightarrow> Inl err
         | Inr du \<Rightarrow>
             (case resolveAssetDimensions E selectedSource of
                Inl err \<Rightarrow> Inl err
              | Inr dims \<Rightarrow>
                  (case resolveAssetUri E (source props) of
                     Inl err \<Rightarrow> Inl err
                   | Inr u \<Rightarrow>
                       Inr \<lparr>displayImageUri = du, imageSizeStyle = dims, renderedUri = u\<rparr>)))"

definition depsOf :: "ImageProps \<Rightarrow> Rendered \<Rightarrow> Deps" where
  "depsOf props r =
     \<lparr>depUri = renderedUri r, depOnError = onError props, depOnLoad = onLoad props,
      depOnLoadEnd = onLoadEnd props, depOnLoadStart = onLoadStart props\<rparr>"

text \<open>
  Mounting: the state is initialized, the component function runs, then the load effect
  runs for the first time.  A \<open>throw\<close> during the render leaves no instance.
\<close>

definition mount :: "env \<Rightarrow> ImageProps \<Rightarrow> handle \<Rightarrow> error + Instance" where
  "mount E props h =
     (case initialState E props of
        Inl err \<Rightarrow> Inl err
      | Inr st \<Rightarrow>
          (case renderBody E props st of
             Inl err \<Rightarrow> Inl err
           | Inr r \<Rightarrow>
               Inr (loadEffect (depsOf props r) h
                      \<lparr>state = st, requestRef = None, deps = depsOf props r,
                       issued = [], calls = []\<rparr>)))"

text \<open>
  A later render: when a dependency has changed, the cleanup of the previous run of the
  effect (\<open>abortPendingRequest\<close>) runs, then the effect runs again.
\<close>

definition update :: "env \<Rightarrow> ImageProps \<Rightarrow> handle \<Rightarrow> Instance \<Rightarrow> error + Instance" where
  "update E props h inst =
     (case renderBody E props (state inst) of
        Inl err \<Rightarrow> Inl err
      | Inr r \<Rightarrow>
          if depsOf props r = deps inst then Inr inst
          else Inr (loadEffect (depsOf props r) h
                      ((abortPendingRequest inst)\<lparr>deps := depsOf props r\<rparr>)))"

text \<open>Unmounting runs the cleanup of the last run of the effect.\<close>

definition unmount :: "Instance \<Rightarrow> Instance" where
  "unmount inst = abortPendingRequest inst"

text \<open>
  What can happen to a mounted component: a render with new props, or the loader calling
  back for a handle it returned.
\<close>

datatype action =
    Render ImageProps handle
  | LoaderSuccess handle event
  | LoaderFailure handle event

definition step :: "env \<Rightarrow> Instance \<Rightarrow> action \<Rightarrow> error + Instance" where
  "step E inst a =
     (case a of
        Render props h \<Rightarrow> update E props h inst
      | LoaderSuccess h e \<Rightarrow>
          (case map_of (issued inst) h of
             None \<Rightarrow> Inr inst
           | Some (u, d) \<Rightarrow> Inr (loadCallback d e inst))
      | LoaderFailure h e \<Rightarrow>
          (case map_of (issued inst) h of
             None \<Rightarrow> Inr inst
           | Some (u, d) \<Rightarrow> Inr (errorCallback u d e inst)))"

fun steps :: "env \<Rightarrow> Instance \<Rightarrow> action list \<Rightarrow> error + Instance" where
  "steps E inst [] = Inr inst"
| "steps E inst (a # as) =
     (case step E inst a of Inl err \<Rightarrow> Inl err | Inr inst' \<Rightarrow> steps E inst' as)"

text \<open>
  Replaying a log of calls against the loader: \<open>cur\<close> is the request that has been
  started and not aborted.  The replay fails (\<open>None\<close>) when \<open>load\<close> is called while a
  request is live, or \<open>abort\<close> is called on anything but the live request.
\<close>

fun liveAfter :: "call list \<Rightarrow> handle option \<Rightarrow> handle option option" where
  "liveAfter [] cur = Some cur"
| "liveAfter (CallLoaderLoad u h # cs) cur =
     (if cur = None then liveAfter cs (Some h) else None)"
| "liveAfter (CallLoaderAbort h # cs) cur =
     (if cur = Some h then liveAfter cs None else None)"
| "liveAfter (c # cs) cur = liveAfter cs cur"

section \<open>The stated behaviour, for comparison\<close>


section \<open>Invariants of a mounted component\<close>

text \<open>The log replays, and the request it leaves live is the one in \<open>requestRef\<close>.\<close>

definition requestTracked :: "Instance \<Rightarrow> bool" where
  "requestTracked inst \<longleftrightarrow> liveAfter (calls inst) None = Some (requestRef inst)"

text \<open>Every pair of callbacks held by the loader belongs to a \<open>load\<close> call of the log.\<close>

definition issuedLogged :: "Instance \<Rightarrow> bool" where
  "issuedLogged inst \<longleftrightarrow>
     (\<forall>(h, u, d) \<in> set (issued inst). CallLoaderLoad u h \<in> set (calls inst))"

section \<open>Sample inputs\<close>

definition sampleAsset :: Asset where
  "sampleAsset = \<lparr>httpServerLocation = ''/assets'', name = ''logo'', type = ''png'',
     scales = [1, 2, 3], assetHeight = 20, assetWidth = 40\<rparr>"

definition sampleEnv :: env where
  "sampleEnv = \<lparr>getAssetByID = (\<lambda>n. if n = 1 then Some sampleAsset else None),
     devicePixelRatio = 12 / 5, ImageLoader_has = (\<lambda>u. u = ''/cached.png''),
     formatNumber = (\<lambda>r. ''?'')\<rparr>"

definition sampleProps :: ImageProps where
  "sampleProps = \<lparr>source = SrcString ''/cached.png'', defaultSource = SrcUndefined,
     onError = Some 1, onLoad = Some 2, onLoadEnd = Some 3, onLoadStart = Some 4\<rparr>"

definition otherProps :: ImageProps where
  "otherProps = \<lparr>source = SrcString ''/other.png'', defaultSource = SrcUndefined,
     onError = Some 1, onLoad = Some 2, onLoadEnd = Some 3, onLoadStart = Some 4\<rparr>"

definition sampleDeps :: Deps where
  "sampleDeps = \<lparr>depUri = Some ''/cached.png'', depOnError = Some 1, depOnLoad = Some 2,
     depOnLoadEnd = Some 3, depOnLoadStart = Some 4\<rparr>"

definition otherDeps :: Deps where
  "otherDeps = \<lparr>depUri = Some ''/other.png'', depOnError = Some 1, depOnLoad = Some 2,
     depOnLoadEnd = Some 3, depOnLoadStart = Some 4\<rparr>"

text \<open>The component after \<open>sampleProps\<close> are mounted and the loader returned handle 7.\<close>

definition sampleInstance :: Instance where
  "sampleInstance =
     \<lparr>state = LOADING, requestRef = Some 7, deps = sampleDeps,
      issued = [(7, ''/cached.png'', sampleDeps)],
      calls = [CallOnLoadStart 4, CallLoaderLoad ''/cached.png'' 7]\<rparr>"

text \<open>The same component after a render with \<open>otherProps\<close>; the loader returned 8.\<close>

definition otherInstance :: Instance where
  "otherInstance =
     \<lparr>state = LOADING, requestRef = Some 8, deps = otherDeps,
      issued = [(8, ''/other.png'', otherDeps), (7, ''/cached.png'', sampleDeps)],
      calls = [CallOnLoadStart 4, CallLoaderLoad ''/cached.png'' 7, CallLoaderAbort 7,
               CallOnLoadStart 4, CallLoaderLoad ''/other.png'' 8]\<rparr>"

text \<open>An inline SVG of two lines.\<close>

definition multilineSvg :: string where
  "multilineSvg = ''<svg>'' @ [CHR 0x0A] @ ''</svg>''"

section \<open>Evaluation of the sample inputs\<close>

lemma numberToString_sample:
  "numberToString sampleEnv 2 = ''2''" "numberToString sampleEnv 7 = ''7''"
  "numberToString sampleEnv 50 = ''50''" "numberToString sampleEnv 100 = ''100''"
  by code_simp+

lemma resolve_plain_uri:
  "resolveAssetUri E (SrcString ''/cached.png'') = Inr (Some ''/cached.png'')"
  "resolveAssetUri E (SrcString ''/other.png'') = Inr (Some ''/other.png'')"
  by (simp_all add: resolveAssetUri_def escapeSvgDataUri_def matchSvgDataUri_def svgPrefix_def)

lemma resolve_absent: "resolveAssetUri E SrcUndefined = Inr None"
  by (simp add: resolveAssetUri_def escapeSvgDataUri_def)

lemma initialState_sample: "initialState sampleEnv sampleProps = Inr LOADED"
  by (simp add: initialState_def sampleProps_def resolve_plain_uri) (simp add: sampleEnv_def)

lemma renderBody_sample:
  "renderBody sampleEnv sampleProps LOADED =
     Inr \<lparr>displayImageUri = Some ''/cached.png'', imageSizeStyle = None,
          renderedUri = Some ''/cached.png''\<rparr>"
  by (simp add: renderBody_def shouldDisplaySource_def sampleProps_def resolve_plain_uri
      resolveAssetDimensions_def)

lemma mount_sample: "mount sampleEnv sampleProps 7 = Inr sampleInstance"
  by (simp add: mount_def initialState_sample renderBody_sample)
     (simp add: depsOf_def loadEffect_def abortPendingRequest_def notify_def
        sampleProps_def sampleInstance_def sampleDeps_def)

lemma renderBody_other:
  "renderBody sampleEnv otherProps LOADING =
     Inr \<lparr>displayImageUri = None, imageSizeStyle = None, renderedUri = Some ''/other.png''\<rparr>"
  by (simp add: renderBody_def shouldDisplaySource_def otherProps_def resolve_plain_uri
      resolve_absent resolveAssetDimensions_def)

lemma update_sample: "update sampleEnv otherProps 8 sampleInstance = Inr otherInstance"
proof -
  have st: "state sampleInstance = LOADING" by (simp add: sampleInstance_def)
  have d: "depsOf otherProps
      \<lparr>displayImageUri = None, imageSizeStyle = None, renderedUri = Some ''/other.png''\<rparr>
      = otherDeps"
    by (simp add: depsOf_def otherProps_def otherDeps_def)
  have ne: "otherDeps \<noteq> deps sampleInstance"
    by (simp add: otherDeps_def sampleInstance_def sampleDeps_def)
  have ab: "abortPendingRequest sampleInstance =
      sampleInstance\<lparr>requestRef := None, calls := calls sampleInstance @ [CallLoaderAbort 7]\<rparr>"
    by (simp add: abortPendingRequest_def sampleInstance_def)
  have "loadEffect otherDeps 8 ((abortPendingRequest sampleInstance)\<lparr>deps := otherDeps\<rparr>)
      = otherInstance"
    unfolding ab
    by (simp add: loadEffect_def abortPendingRequest_def notify_def)
       (simp add: otherDeps_def sampleInstance_def otherInstance_def notify_def)
  then show ?thesis
    using ne by (simp add: update_def st renderBody_other d)
qed

section \<open>The source resolver: failures\<close>

text \<open>
  C9.  For the source that is an empty array, \<open>resolveAssetUri\<close> throws a \<open>TypeError\<close>
  (\<open>source[0]\<close> is \<open>undefined\<close>, and its \<open>uri\<close> is read); it returns neither \<open>null\<close> nor
  a URI.
\<close>

theorem empty_array_TypeError: "resolveAssetUri E (SrcArray []) = Inl TypeError"
  by (simp add: resolveAssetUri_def)

text \<open>
  C5.  For a numeric handle for which the registry returns \<open>null\<close>, the resolution of the
  URI throws an error whose message names the handle, and produces no URI.
\<close>

theorem unknown_asset_throws:
  \<open>getAssetByID E n = None \<Longrightarrow>
   resolveAssetUri E (SrcNumber n) =
     Inl (Error (''Image: asset with ID "'' @ numberToString E n
            @ ''" could not be found. Please check the image source or packager.''))\<close>
  by (simp add: resolveAssetUri_def)

theorem unknown_asset_throws_witness:
  \<open>getAssetByID sampleEnv 7 = None \<and>
   resolveAssetUri sampleEnv (SrcNumber 7) =
     Inl (Error ''Image: asset with ID "7" could not be found. Please check the image source or packager.'')\<close>
proof -
  have h: "getAssetByID sampleEnv 7 = None" by (simp add: sampleEnv_def)
  show ?thesis using h unknown_asset_throws [OF h] numberToString_sample(2) by simp
qed

text \<open>
  C10.  For a numeric handle for which the registry returns \<open>null\<close>,
  \<open>resolveAssetDimensions\<close> throws a \<open>TypeError\<close> (the destructuring of \<open>null\<close>), where
  \<open>resolveAssetUri\<close> throws its own error for the same handle: the two fail differently.
\<close>

theorem unknown_asset_dimensions_TypeError:
  "getAssetByID E n = None \<Longrightarrow>
   resolveAssetDimensions E (SrcNumber n) = Inl TypeError
   \<and> (\<exists>msg. resolveAssetUri E (SrcNumber n) = Inl (Error msg))"
  by (simp add: resolveAssetUri_def resolveAssetDimensions_def)

theorem unknown_asset_dimensions_TypeError_witness:
  "getAssetByID sampleEnv 7 = None
   \<and> resolveAssetDimensions sampleEnv (SrcNumber 7) = Inl TypeError
   \<and> (\<exists>msg. resolveAssetUri sampleEnv (SrcNumber 7) = Inl (Error msg))"
proof -
  have h: "getAssetByID sampleEnv 7 = None" by (simp add: sampleEnv_def)
  show ?thesis using h unknown_asset_dimensions_TypeError [OF h] by simp
qed

section \<open>The source resolver: the choice of the scale\<close>






section \<open>The source resolver: inline SVG\<close>

lemma hexValue_hexDigit_all: "\<forall>n \<in> set [0..<16]. hexValue (hexDigit n) = Some n"
  by code_simp

lemma hexValue_hexDigit: "n < 16 \<Longrightarrow> hexValue (hexDigit n) = Some n"
  using hexValue_hexDigit_all by simp

lemma percent_not_unreserved: "uriUnreserved c \<Longrightarrow> c \<noteq> CHR ''%''"
  by (auto simp: uriUnreserved_def)

lemma decode_encodeByte:
  "decodeURIComponent (encodeByte c @ t) = map_option ((#) c) (decodeURIComponent t)"
proof (cases "uriUnreserved c")
  case True
  then show ?thesis using percent_not_unreserved by (simp add: encodeByte_def)
next
  case False
  have "of_char c < (256::nat)" by simp
  then have hi: "of_char c div 16 < (16::nat)" by linarith
  have lo: "of_char c mod 16 < (16::nat)" by simp
  show ?thesis using False
    by (simp add: encodeByte_def hexValue_hexDigit[OF hi] hexValue_hexDigit[OF lo])
qed

text \<open>Decoding reads back what encoding wrote.\<close>

lemma decode_encode: "decodeURIComponent (encodeURIComponent s) = Some s"
  by (induction s) (simp_all add: encodeURIComponent_def decode_encodeByte)

text \<open>
  An inline SVG with no line terminator in its payload (\<open>dotStar svg = svg\<close>) keeps its
  prefix, and its escaped payload decodes to the markup.
\<close>

lemma svg_single_line_roundtrip:
  assumes "dotStar svg = svg"
  shows "resolveAssetUri E (SrcString (svgPrefix @ svg))
           = Inr (Some (svgPrefix @ encodeURIComponent svg))
         \<and> decodeURIComponent (encodeURIComponent svg) = Some svg"
  using assms
  by (simp add: resolveAssetUri_def escapeSvgDataUri_def matchSvgDataUri_def
      decode_encode svgPrefix_def)

text \<open>
  C7.  The claim is that every inline SVG keeps its prefix and that its escaped payload
  decodes to the original markup.  For a markup of two lines the pattern captures the
  first line only: the URI returned holds the escaped first line, which decodes to
  \<open><svg>\<close> and not to the markup.
\<close>

theorem svg_multiline_truncated:
  "resolveAssetUri sampleEnv (SrcString (svgPrefix @ multilineSvg))
     = Inr (Some (svgPrefix @ ''%3Csvg%3E''))
   \<and> decodeURIComponent ''%3Csvg%3E'' = Some ''<svg>''
   \<and> ''<svg>'' \<noteq> multilineSvg"
  by code_simp

section \<open>The presentation: what is displayed\<close>

text \<open>
  C3.  The claim is that \<open>shouldDisplaySource\<close> holds while loading whenever no
  \<open>defaultSource\<close> is configured, an absent one included.  With the prop absent
  (\<open>undefined\<close>) and the state \<open>LOADING\<close> it does not hold, and the render displays the
  absent \<open>defaultSource\<close>, that is no image.
\<close>

theorem shouldDisplaySource_absent_default:
  "shouldDisplaySource LOADING SrcUndefined = False
   \<and> defaultSource sampleProps = SrcUndefined
   \<and> map_sum id displayImageUri (renderBody sampleEnv sampleProps LOADING) = Inr None"
  by (simp add: shouldDisplaySource_def renderBody_def sampleProps_def resolve_plain_uri
      resolve_absent resolveAssetDimensions_def)



section \<open>The load effect: one live request\<close>

lemma liveAfter_append:
  "liveAfter (xs @ ys) cur = (case liveAfter xs cur of None \<Rightarrow> None | Some c \<Rightarrow> liveAfter ys c)"
  by (induction xs cur rule: liveAfter.induct) simp_all

lemma liveAfter_notify_start [simp]:
  "liveAfter (notify cb CallOnLoadStart) cur = Some cur"
  by (cases cb) (simp_all add: notify_def)

lemma liveAfter_notify_load [simp]:
  "liveAfter (notify cb (\<lambda>k. CallOnLoad k e)) cur = Some cur"
  by (cases cb) (simp_all add: notify_def)

lemma liveAfter_notify_end [simp]:
  "liveAfter (notify cb (\<lambda>k. CallOnLoadEnd k e)) cur = Some cur"
  by (cases cb) (simp_all add: notify_def)

lemma liveAfter_notify_error [simp]:
  "liveAfter (notify cb (\<lambda>k. CallOnError k m)) cur = Some cur"
  by (cases cb) (simp_all add: notify_def)

lemma requestTracked_abort:
  "requestTracked inst \<Longrightarrow> requestTracked (abortPendingRequest inst) \<and> requestRef (abortPendingRequest inst) = None"
  by (cases "requestRef inst") (simp_all add: requestTracked_def abortPendingRequest_def liveAfter_append)

lemma requestTracked_deps_update: "requestTracked (inst\<lparr>deps := d\<rparr>) = requestTracked inst"
  by (simp add: requestTracked_def)

lemma requestRef_deps_update: "requestRef (inst\<lparr>deps := d\<rparr>) = requestRef inst"
  by simp

lemma requestTracked_loadEffect: "requestTracked inst \<Longrightarrow> requestTracked (loadEffect d h inst)"
proof -
  assume t: "requestTracked inst"
  let ?a = "abortPendingRequest inst"
  from requestTracked_abort[OF t] have a: "liveAfter (calls ?a) None = Some None" "requestRef ?a = None"
    by (simp_all add: requestTracked_def)
  show ?thesis
    by (cases "depUri d") (simp_all add: loadEffect_def Let_def requestTracked_def a liveAfter_append)
qed

lemma requestTracked_fresh:
  "requestTracked \<lparr>state = st, requestRef = None, deps = d, issued = [], calls = []\<rparr>"
  by (simp add: requestTracked_def)

lemma requestTracked_mount: "mount E p h = Inr i \<Longrightarrow> requestTracked i"
  by (auto simp: mount_def split: sum.splits intro!: requestTracked_loadEffect requestTracked_fresh)

lemma requestTracked_update: "requestTracked i \<Longrightarrow> update E p h i = Inr i' \<Longrightarrow> requestTracked i'"
  by (auto simp: update_def requestTracked_loadEffect requestTracked_abort requestTracked_deps_update split: sum.splits if_splits)

lemma requestTracked_loadCallback: "requestTracked i \<Longrightarrow> requestTracked (loadCallback d e i)"
  by (simp add: requestTracked_def loadCallback_def liveAfter_append)

lemma requestTracked_errorCallback: "requestTracked i \<Longrightarrow> requestTracked (errorCallback u d e i)"
  by (simp add: requestTracked_def errorCallback_def liveAfter_append)

lemma requestTracked_step: "requestTracked i \<Longrightarrow> step E i a = Inr i' \<Longrightarrow> requestTracked i'"
  by (cases a) (auto simp: step_def requestTracked_update requestTracked_loadCallback requestTracked_errorCallback
      split: option.splits)

lemma requestTracked_steps: "requestTracked i \<Longrightarrow> steps E i acts = Inr i' \<Longrightarrow> requestTracked i'"
proof (induction acts arbitrary: i)
  case Nil
  then show ?case by simp
next
  case (Cons a acts)
  then show ?case by (auto split: sum.splits dest: requestTracked_step)
qed

lemma liveAfter_take:
  "liveAfter cs cur = Some r \<Longrightarrow> \<exists>m. liveAfter (take n cs) cur = Some m"
proof -
  assume a: "liveAfter cs cur = Some r"
  have "liveAfter (take n cs @ drop n cs) cur = Some r" using a by simp
  then show ?thesis unfolding liveAfter_append by (cases "liveAfter (take n cs) cur") simp_all
qed

lemma update_changed_uri:
  assumes "requestRef i = Some hp" "update E p h i = Inr i'"
    "depUri (deps i') = Some u" "depUri (deps i') \<noteq> depUri (deps i)"
  shows "calls i' = calls i @ [CallLoaderAbort hp] @ notify (onLoadStart p) CallOnLoadStart
                      @ [CallLoaderLoad u h]"
  using assms
  by (auto simp: update_def loadEffect_def abortPendingRequest_def Let_def depsOf_def
      split: sum.splits if_splits option.splits)

lemma unmount_calls:
  "requestRef i = Some hp \<Longrightarrow> calls (unmount i) = calls i @ [CallLoaderAbort hp]"
  by (simp add: unmount_def abortPendingRequest_def)

text \<open>
  C1.  At every moment of a mounted component the log of its calls to the loader replays
  with at most one live request, the one in \<open>requestRef\<close>: \<open>load\<close> is only called when
  no request is live.  A render that changes the resolved URI while a request is
  outstanding calls \<open>abort\<close> on that request before the \<open>load\<close> for the new URI, and
  unmounting aborts the current request and leaves none live.
\<close>

theorem one_live_request:
  assumes "mount E p h0 = Inr i0" and "steps E i0 acts = Inr i"
  shows "liveAfter (calls i) None = Some (requestRef i)
    \<and> (\<forall>n. liveAfter (take n (calls i)) None \<noteq> None)
    \<and> (\<forall>p' h' i' hp u. requestRef i = Some hp \<and> update E p' h' i = Inr i'
          \<and> depUri (deps i') = Some u \<and> depUri (deps i') \<noteq> depUri (deps i)
        \<longrightarrow> calls i' = calls i @ [CallLoaderAbort hp]
               @ notify (onLoadStart p') CallOnLoadStart @ [CallLoaderLoad u h'])
    \<and> (\<forall>hp. requestRef i = Some hp \<longrightarrow> calls (unmount i) = calls i @ [CallLoaderAbort hp])
    \<and> liveAfter (calls (unmount i)) None = Some None"
proof -
  have t: "requestTracked i" using assms requestTracked_mount requestTracked_steps by blast
  then have 1: "liveAfter (calls i) None = Some (requestRef i)"
    by (simp add: requestTracked_def)
  have 2: "\<forall>n. liveAfter (take n (calls i)) None \<noteq> None"
    using liveAfter_take[OF 1] by fastforce
  have 3: "liveAfter (calls (unmount i)) None = Some None"
    using requestTracked_abort[OF t] by (simp add: unmount_def requestTracked_def)
  show ?thesis using 1 2 3 update_changed_uri unmount_calls by blast
qed

text \<open>
  The sample component, rendered with a new URI and then unmounted: the first request is
  aborted before the second is started, and the second is aborted at the end.
\<close>

theorem one_live_request_witness:
  "mount sampleEnv sampleProps 7 = Inr sampleInstance
   \<and> steps sampleEnv sampleInstance [Render otherProps 8] = Inr otherInstance
   \<and> calls otherInstance =
       [CallOnLoadStart 4, CallLoaderLoad ''/cached.png'' 7, CallLoaderAbort 7,
        CallOnLoadStart 4, CallLoaderLoad ''/other.png'' 8]
   \<and> liveAfter (calls otherInstance) None = Some (Some 8)
   \<and> calls (unmount otherInstance) = calls otherInstance @ [CallLoaderAbort 8]
   \<and> liveAfter (calls (unmount otherInstance)) None = Some None"
proof -
  have s: "steps sampleEnv sampleInstance [Render otherProps 8] = Inr otherInstance"
    by (simp add: step_def update_sample)
  have r: "requestRef otherInstance = Some 8" by (simp add: otherInstance_def)
  have c: "calls otherInstance =
       [CallOnLoadStart 4, CallLoaderLoad ''/cached.png'' 7, CallLoaderAbort 7,
        CallOnLoadStart 4, CallLoaderLoad ''/other.png'' 8]"
    by (simp add: otherInstance_def)
  from one_live_request [OF mount_sample s] have
    "liveAfter (calls otherInstance) None = Some (requestRef otherInstance)"
    "\<forall>hp. requestRef otherInstance = Some hp
        \<longrightarrow> calls (unmount otherInstance) = calls otherInstance @ [CallLoaderAbort hp]"
    "liveAfter (calls (unmount otherInstance)) None = Some None"
    by blast+
  then show ?thesis using mount_sample s r c by simp
qed

section \<open>The load effect: mounting a cached URI\<close>

lemma uri_then_dimensions:
  "resolveAssetUri E s = Inr u \<Longrightarrow> \<exists>d. resolveAssetDimensions E s = Inr d"
  by (cases s) (auto simp: resolveAssetUri_def resolveAssetDimensions_def split: option.splits)

text \<open>
  C2.  When the URI of \<open>source\<close> resolves to a string that the loader
  reports as cached, the state is initialized to \<open>LOADED\<close>, and mounting succeeds; the
  load effect of the mount then sets the state to \<open>LOADING\<close>, calls \<open>onLoadStart\<close> once
  if the prop is given, and calls \<open>ImageLoader.load\<close> for the URI.  Nothing else is called:
  in particular \<open>onLoadEnd\<close> is not.
\<close>

theorem cached_mount_still_loads:
  assumes "resolveAssetUri E (source props) = Inr (Some u)" and "ImageLoader_has E u"
  shows "initialState E props = Inr LOADED
    \<and> (\<exists>inst. mount E props h = Inr inst \<and> state inst = LOADING \<and> requestRef inst = Some h
          \<and> calls inst = (case onLoadStart props of None \<Rightarrow> [] | Some k \<Rightarrow> [CallOnLoadStart k])
                           @ [CallLoaderLoad u h])"
proof -
  have ini: "initialState E props = Inr LOADED"
    using assms by (simp add: initialState_def)
  obtain d where d: "resolveAssetDimensions E (source props) = Inr d"
    using uri_then_dimensions[OF assms(1)] by blast
  have rb: "renderBody E props LOADED =
      Inr \<lparr>displayImageUri = Some u, imageSizeStyle = d, renderedUri = Some u\<rparr>"
    using assms(1) d by (simp add: renderBody_def shouldDisplaySource_def)
  show ?thesis
    using ini rb
    by (simp add: mount_def loadEffect_def abortPendingRequest_def depsOf_def notify_def
        split: option.splits)
qed

theorem cached_mount_still_loads_witness:
  "resolveAssetUri sampleEnv (source sampleProps) = Inr (Some ''/cached.png'')
   \<and> ImageLoader_has sampleEnv ''/cached.png''
   \<and> initialState sampleEnv sampleProps = Inr LOADED
   \<and> mount sampleEnv sampleProps 7 = Inr sampleInstance
   \<and> state sampleInstance = LOADING"
proof -
  have a: "resolveAssetUri sampleEnv (source sampleProps) = Inr (Some ''/cached.png'')"
    by (simp add: sampleProps_def resolve_plain_uri)
  have b: "ImageLoader_has sampleEnv ''/cached.png''" by (simp add: sampleEnv_def)
  from cached_mount_still_loads [OF a b, of 7] show ?thesis
    using a b mount_sample by simp
qed

text \<open>
  A mount with a cached URI is not free of load-start notifications: mounting the sample
  props, whose URI the loader reports as cached, calls \<open>onLoadStart\<close>.
\<close>

theorem cached_mount_calls_onLoadStart:
  "resolveAssetUri sampleEnv (source sampleProps) = Inr (Some ''/cached.png'')
   \<and> ImageLoader_has sampleEnv ''/cached.png''
   \<and> onLoadStart sampleProps = Some 4
   \<and> map_sum id calls (mount sampleEnv sampleProps 7)
       = Inr [CallOnLoadStart 4, CallLoaderLoad ''/cached.png'' 7]"
proof -
  have a: "resolveAssetUri sampleEnv (source sampleProps) = Inr (Some ''/cached.png'')"
    by (simp add: sampleProps_def resolve_plain_uri)
  have b: "ImageLoader_has sampleEnv ''/cached.png''" by (simp add: sampleEnv_def)
  have c: "calls sampleInstance = [CallOnLoadStart 4, CallLoaderLoad ''/cached.png'' 7]"
    by (simp add: sampleInstance_def)
  have d: "onLoadStart sampleProps = Some 4" by (simp add: sampleProps_def)
  show ?thesis using a b c d by (simp add: mount_sample)
qed

section \<open>The load effect: a failed load\<close>

lemma issuedLogged_abort: "issuedLogged i \<Longrightarrow> issuedLogged (abortPendingRequest i)"
  by (auto simp: issuedLogged_def abortPendingRequest_def split: option.splits)

lemma issuedLogged_loadEffect: "issuedLogged i \<Longrightarrow> issuedLogged (loadEffect d h i)"
  using issuedLogged_abort[of i]
  by (auto simp: issuedLogged_def loadEffect_def Let_def split: option.splits)

lemma issuedLogged_mount: "mount E p h = Inr i \<Longrightarrow> issuedLogged i"
proof -
  have f: "\<And>st d. issuedLogged \<lparr>state = st, requestRef = None, deps = d, issued = [], calls = []\<rparr>"
    by (simp add: issuedLogged_def)
  show "mount E p h = Inr i \<Longrightarrow> issuedLogged i"
    by (auto simp: mount_def split: sum.splits intro!: issuedLogged_loadEffect f)
qed

lemma issuedLogged_deps: "issuedLogged (i\<lparr>deps := d\<rparr>) = issuedLogged i"
  by (simp add: issuedLogged_def)

lemma issuedLogged_update: "issuedLogged i \<Longrightarrow> update E p h i = Inr i' \<Longrightarrow> issuedLogged i'"
  by (auto simp: update_def issuedLogged_deps split: sum.splits if_splits
      intro!: issuedLogged_loadEffect issuedLogged_abort)

lemma issuedLogged_step: "issuedLogged i \<Longrightarrow> step E i a = Inr i' \<Longrightarrow> issuedLogged i'"
proof (cases a)
  case (Render p h)
  assume "issuedLogged i" "step E i a = Inr i'"
  then show ?thesis using Render issuedLogged_update by (simp add: step_def)
next
  case (LoaderSuccess h e)
  assume "issuedLogged i" "step E i a = Inr i'"
  then show ?thesis using LoaderSuccess
    by (auto simp: step_def issuedLogged_def loadCallback_def split: option.splits)
next
  case (LoaderFailure h e)
  assume "issuedLogged i" "step E i a = Inr i'"
  then show ?thesis using LoaderFailure
    by (auto simp: step_def issuedLogged_def errorCallback_def split: option.splits)
qed

lemma issuedLogged_steps: "issuedLogged i \<Longrightarrow> steps E i acts = Inr i' \<Longrightarrow> issuedLogged i'"
proof (induction acts arbitrary: i)
  case Nil
  then show ?case by simp
next
  case (Cons a acts)
  then show ?case by (auto split: sum.splits dest: issuedLogged_step)
qed

text \<open>
  C6.  In a mounted component, let the loader hold under handle \<open>h\<close> the callbacks of a
  load of the URI \<open>u\<close>, made with the callback props \<open>d\<close>.  That load is in the log.  When
  the loader calls the failure callback, the state becomes \<open>ERRORED\<close> and the component
  calls, in this order and nothing else: \<open>onError\<close> (if given) once, with the message
  \<open>Failed to load resource u (404)\<close>, then \<open>onLoadEnd\<close> (if given) once.  \<open>onLoad\<close> is not
  called.
\<close>

theorem failed_load_notifications:
  assumes "mount E p h0 = Inr i0" and "steps E i0 acts = Inr i"
    and "map_of (issued i) h = Some (u, d)"
  shows "CallLoaderLoad u h \<in> set (calls i)
    \<and> (\<exists>i'. step E i (LoaderFailure h e) = Inr i' \<and> state i' = ERRORED
          \<and> calls i' = calls i
              @ (case depOnError d of None \<Rightarrow> []
                 | Some k \<Rightarrow> [CallOnError k (''Failed to load resource '' @ u @ '' (404)'')])
              @ (case depOnLoadEnd d of None \<Rightarrow> [] | Some k \<Rightarrow> [CallOnLoadEnd k e]))"
proof -
  have "issuedLogged i" using assms(1,2) issuedLogged_mount issuedLogged_steps by blast
  moreover have "(h, u, d) \<in> set (issued i)" using assms(3) by (rule map_of_SomeD)
  ultimately have 1: "CallLoaderLoad u h \<in> set (calls i)" by (auto simp: issuedLogged_def)
  have 2: "step E i (LoaderFailure h e) = Inr (errorCallback u d e i)"
    using assms(3) by (simp add: step_def)
  have 3: "errorCallback u d e i = i\<lparr>state := ERRORED, calls := calls i
              @ (case depOnError d of None \<Rightarrow> []
                 | Some k \<Rightarrow> [CallOnError k (''Failed to load resource '' @ u @ '' (404)'')])
              @ (case depOnLoadEnd d of None \<Rightarrow> [] | Some k \<Rightarrow> [CallOnLoadEnd k e])\<rparr>"
    by (cases "depOnError d"; cases "depOnLoadEnd d") (simp_all add: errorCallback_def notify_def)
  show ?thesis unfolding 2 3 using 1 by simp
qed

text \<open>The sample component, whose load of \<open>/cached.png\<close> fails with the event 5.\<close>

theorem failed_load_notifications_witness:
  "mount sampleEnv sampleProps 7 = Inr sampleInstance
   \<and> steps sampleEnv sampleInstance [] = Inr sampleInstance
   \<and> map_of (issued sampleInstance) 7 = Some (''/cached.png'', sampleDeps)
   \<and> map_sum id calls (step sampleEnv sampleInstance (LoaderFailure 7 5))
       = Inr [CallOnLoadStart 4, CallLoaderLoad ''/cached.png'' 7,
              CallOnError 1 ''Failed to load resource /cached.png (404)'', CallOnLoadEnd 3 5]"
proof -
  have s: "steps sampleEnv sampleInstance [] = Inr sampleInstance" by simp
  have k: "calls sampleInstance = [CallOnLoadStart 4, CallLoaderLoad ''/cached.png'' 7]"
    by (simp add: sampleInstance_def)
  have m: "map_of (issued sampleInstance) 7 = Some (''/cached.png'', sampleDeps)"
    by (simp add: sampleInstance_def)
  have d: "depOnError sampleDeps = Some 1" "depOnLoadEnd sampleDeps = Some 3"
    by (simp_all add: sampleDeps_def)
  from failed_load_notifications [OF mount_sample s m, of 5] obtain i' where
    1: "step sampleEnv sampleInstance (LoaderFailure 7 5) = Inr i'" and
    2: "calls i' = calls sampleInstance
          @ (case depOnError sampleDeps of None \<Rightarrow> []
             | Some k \<Rightarrow> [CallOnError k (''Failed to load resource '' @ ''/cached.png'' @ '' (404)'')])
          @ (case depOnLoadEnd sampleDeps of None \<Rightarrow> [] | Some k \<Rightarrow> [CallOnLoadEnd k 5])"
    by blast
  have "calls i' = [CallOnLoadStart 4, CallLoaderLoad ''/cached.png'' 7,
              CallOnError 1 ''Failed to load resource /cached.png (404)'', CallOnLoadEnd 3 5]"
    unfolding 2 k d by simp
  then show ?thesis using mount_sample s m 1 by simp
qed

end
